theory Spec2Isabelle
  imports Main "HOL-Library.Word" "HOL-Library.While_Combinator"
begin

section \<open>Surface descriptors (struct SurfaceParams)\<close>

text \<open>
  Machine types of \<^verbatim>\<open>gl_rasterizer_cache.h\<close>. \<^verbatim>\<open>u32\<close> arithmetic wraps modulo
  \<open>2 ^ 32\<close>; \<^verbatim>\<open>std::size_t\<close>, \<^verbatim>\<open>GPUVAddr\<close>, \<^verbatim>\<open>CacheAddr\<close> and pointers are 64-bit
  unsigned values.
\<close>

type_synonym u32 = "32 word"
type_synonym u64 = "64 word"
type_synonym size_t = "64 word"
type_synonym GPUVAddr = "64 word"
type_synonym CacheAddr = "64 word"

text \<open>
  \<^verbatim>\<open>PixelFormat\<close>, \<^verbatim>\<open>ComponentType\<close> and \<^verbatim>\<open>SurfaceType\<close> are enum classes declared in
  \<^verbatim>\<open>video_core/surface.h\<close>; the header under study only stores and compares their
  values. A value of such an enum is carried as its underlying integer.
\<close>

type_synonym PixelFormat = "32 word"
type_synonym ComponentType = "32 word"
type_synonym SurfaceType = "32 word"

text \<open>The enumerators of \<^verbatim>\<open>SurfaceTarget\<close> that \<^verbatim>\<open>SurfaceTargetName\<close> switches over.\<close>

datatype SurfaceTarget =
    Texture1D
  | Texture2D
  | Texture3D
  | Texture1DArray
  | Texture2DArray
  | TextureCubemap
  | TextureCubeArray

datatype SurfaceClass =
    Uploaded
  | RenderTarget
  | DepthBuffer
  | Copy

text \<open>The anonymous struct member \<^verbatim>\<open>rt\<close> of \<^verbatim>\<open>SurfaceParams\<close>.\<close>

record rt_params =
  index :: u32
  array_mode :: u32
  volume :: u32
  layer_stride :: u32
  base_layer :: u32

record SurfaceParams =
  is_tiled :: bool
  block_width :: u32
  block_height :: u32
  block_depth :: u32
  tile_width_spacing :: u32
  pixel_format :: PixelFormat
  component_type :: ComponentType
  type :: SurfaceType
  width :: u32
  height :: u32
  depth :: u32
  unaligned_height :: u32
  pitch :: u32
  target :: SurfaceTarget
  identity :: SurfaceClass
  max_mip_level :: u32
  is_layered :: bool
  is_array :: bool
  srgb_conversion :: bool
  host_ptr :: u64
  gpu_addr :: GPUVAddr
  size_in_bytes :: size_t
  size_in_bytes_gl :: size_t
  rt :: rt_params

subsection \<open>IsCompatibleSurface\<close>

text \<open>
  The two \<^verbatim>\<open>std::tie\<close> comparisons of \<^verbatim>\<open>SurfaceParams::IsCompatibleSurface\<close>, with
  the early \<^verbatim>\<open>return true\<close> for a linear surface.
\<close>

definition IsCompatibleSurface :: "SurfaceParams \<Rightarrow> SurfaceParams \<Rightarrow> bool" where
  "IsCompatibleSurface this other =
     (if (pixel_format this, type this, width this, height this, target this, depth this,
          is_tiled this) =
         (pixel_format other, type other, width other, height other, target other,
          depth other, is_tiled other)
      then (if \<not> is_tiled this then True
            else (block_height this, block_depth this, tile_width_spacing this) =
                 (block_height other, block_depth other, tile_width_spacing other))
      else False)"

text \<open>
  The compatibility relation as the specification words it: pixel format, component type,
  width, height, target, depth and tiling flag, then the block layout for tiled surfaces.
\<close>

definition spec_compatible :: "SurfaceParams \<Rightarrow> SurfaceParams \<Rightarrow> bool" where
  "spec_compatible a b =
     (pixel_format a = pixel_format b \<and> component_type a = component_type b \<and>
      width a = width b \<and> height a = height b \<and> target a = target b \<and>
      depth a = depth b \<and> is_tiled a = is_tiled b \<and>
      (is_tiled a \<longrightarrow>
         block_height a = block_height b \<and> block_depth a = block_depth b \<and>
         tile_width_spacing a = tile_width_spacing b))"

subsection \<open>SurfaceReserveKey::Create\<close>

text \<open>
  A \<^verbatim>\<open>SurfaceReserveKey\<close> is a \<^verbatim>\<open>HashableStruct\<close> around one \<^verbatim>\<open>SurfaceParams\<close> value,
  its \<^verbatim>\<open>state\<close>; two keys are equal when their states are. \<^verbatim>\<open>Create\<close> copies the
  descriptor and value-initialises three members: the first enumerator for \<^verbatim>\<open>identity\<close>,
  zero for \<^verbatim>\<open>gpu_addr\<close> and for every member of \<^verbatim>\<open>rt\<close>.
\<close>

type_synonym SurfaceReserveKey = SurfaceParams

definition rt_zero :: rt_params where
  "rt_zero = \<lparr>index = 0, array_mode = 0, volume = 0, layer_stride = 0, base_layer = 0\<rparr>"

definition Create :: "SurfaceParams \<Rightarrow> SurfaceReserveKey" where
  "Create params = params\<lparr>identity := Uploaded, gpu_addr := 0, rt := rt_zero\<rparr>"

text \<open>
  "The descriptors differ only in their address fields, their render-target fields or
  their classification": every other member of the two descriptors agrees. The address
  members of \<^verbatim>\<open>SurfaceParams\<close> are \<^verbatim>\<open>host_ptr\<close> and \<^verbatim>\<open>gpu_addr\<close>.
\<close>

definition spec_differ_only_addr_rt :: "SurfaceParams \<Rightarrow> SurfaceParams \<Rightarrow> bool" where
  "spec_differ_only_addr_rt a b =
     (b = a\<lparr>host_ptr := host_ptr b, gpu_addr := gpu_addr b, rt := rt b,
            identity := identity b\<rparr>)"

text \<open>A descriptor used in the concrete instances below: 256 x 256, tiled, block height 16.\<close>

definition example_params :: SurfaceParams where
  "example_params =
     \<lparr>is_tiled = True, block_width = 1, block_height = 16, block_depth = 1,
      tile_width_spacing = 0, pixel_format = 0, component_type = 1, type = 0,
      width = 256, height = 256, depth = 1, unaligned_height = 256, pitch = 0,
      target = Texture2D, identity = RenderTarget, max_mip_level = 1, is_layered = False,
      is_array = False, srgb_conversion = False, host_ptr = 0x1000, gpu_addr = 0x2000,
      size_in_bytes = 0x40000, size_in_bytes_gl = 0x40000,
      rt = \<lparr>index = 1, array_mode = 0, volume = 0, layer_stride = 0, base_layer = 0\<rparr>\<rparr>"

subsection \<open>Mip level geometry\<close>

text \<open>
  A right shift of a \<^verbatim>\<open>u32\<close> by 32 or more and a division by zero have no defined
  result in C++: the model returns \<open>None\<close> there.
\<close>

definition shr_u32 :: "u32 \<Rightarrow> u32 \<Rightarrow> u32 option" where
  "shr_u32 x n = (if n < 32 then Some (drop_bit (unat n) x) else None)"

definition MipWidth :: "SurfaceParams \<Rightarrow> u32 \<Rightarrow> u32 option" where
  "MipWidth this mip_level = map_option (max 1) (shr_u32 (width this) mip_level)"

definition MipHeight :: "SurfaceParams \<Rightarrow> u32 \<Rightarrow> u32 option" where
  "MipHeight this mip_level = map_option (max 1) (shr_u32 (height this) mip_level)"

definition MipDepth :: "SurfaceParams \<Rightarrow> u32 \<Rightarrow> u32 option" where
  "MipDepth this mip_level =
     (if is_layered this then Some (depth this)
      else map_option (max 1) (shr_u32 (depth this) mip_level))"

text \<open>The loop \<^verbatim>\<open>while (bh > 1 && blocks_in_y <= bh * 4) bh >>= 1;\<close>\<close>

function MipBlockHeight_loop :: "u32 \<Rightarrow> u32 \<Rightarrow> u32" where
  "MipBlockHeight_loop blocks_in_y bh =
     (if bh > 1 \<and> blocks_in_y \<le> bh * 4
      then MipBlockHeight_loop blocks_in_y (drop_bit 1 bh)
      else bh)"
  by pat_completeness auto
termination
proof (relation "measure (\<lambda>(blocks_in_y, bh). unat bh)")
  show "wf (measure (\<lambda>(blocks_in_y, bh). unat bh))"
    by simp
next
  fix blocks_in_y bh :: u32
  assume "1 < bh \<and> blocks_in_y \<le> bh * 4"
  then have "1 < unat bh"
    by (simp add: word_less_nat_alt)
  then have "unat bh div 2 < unat bh"
    by simp
  then show "((blocks_in_y, drop_bit 1 bh), (blocks_in_y, bh))
      \<in> measure (\<lambda>(blocks_in_y, bh). unat bh)"
    by (simp add: drop_bit_eq_div unat_div)
qed

text \<open>
  \<^verbatim>\<open>GetDefaultBlockHeight\<close> is a table lookup of \<^verbatim>\<open>video_core/surface.h\<close>; it is a
  parameter of the model.
\<close>

definition MipBlockHeight :: "(PixelFormat \<Rightarrow> u32) \<Rightarrow> SurfaceParams \<Rightarrow> u32 \<Rightarrow> u32 option" where
  "MipBlockHeight GetDefaultBlockHeight this mip_level =
     (if mip_level = 0 then Some (block_height this)
      else
        (case MipHeight this mip_level of
           None \<Rightarrow> None
         | Some alt_height \<Rightarrow>
             (let h = GetDefaultBlockHeight (pixel_format this) in
              if h = 0 then None
              else
                (let blocks_in_y = (alt_height + h - 1) div h
                 in Some (MipBlockHeight_loop blocks_in_y 16)))))"

text \<open>The loop \<^verbatim>\<open>while (bd > 1 && mip_depth * 2 <= bd) bd >>= 1;\<close>\<close>

function MipBlockDepth_loop :: "u32 \<Rightarrow> u32 \<Rightarrow> u32" where
  "MipBlockDepth_loop mip_depth bd =
     (if bd > 1 \<and> mip_depth * 2 \<le> bd
      then MipBlockDepth_loop mip_depth (drop_bit 1 bd)
      else bd)"
  by pat_completeness auto
termination
proof (relation "measure (\<lambda>(mip_depth, bd). unat bd)")
  show "wf (measure (\<lambda>(mip_depth, bd). unat bd))"
    by simp
next
  fix mip_depth bd :: u32
  assume "1 < bd \<and> mip_depth * 2 \<le> bd"
  then have "1 < unat bd"
    by (simp add: word_less_nat_alt)
  then have "unat bd div 2 < unat bd"
    by simp
  then show "((mip_depth, drop_bit 1 bd), (mip_depth, bd))
      \<in> measure (\<lambda>(mip_depth, bd). unat bd)"
    by (simp add: drop_bit_eq_div unat_div)
qed

definition MipBlockDepth :: "(PixelFormat \<Rightarrow> u32) \<Rightarrow> SurfaceParams \<Rightarrow> u32 \<Rightarrow> u32 option" where
  "MipBlockDepth GetDefaultBlockHeight this mip_level =
     (if mip_level = 0 then Some (block_depth this)
      else if is_layered this then Some 1
      else
        (case MipDepth this mip_level of
           None \<Rightarrow> None
         | Some mip_depth \<Rightarrow>
             (let bd = MipBlockDepth_loop mip_depth 32 in
              if bd = 32 then
                (case MipBlockHeight GetDefaultBlockHeight this mip_level of
                   None \<Rightarrow> None
                 | Some bh \<Rightarrow> if bh \<ge> 4 then Some 16 else Some bd)
              else Some bd)))"

text \<open>
  The selection rules as the specification words them, on natural numbers. A loop of the
  specification is a \<open>while_option\<close>, whose value is \<open>None\<close> when the loop does not end.
\<close>

definition spec_blocks_needed :: "nat \<Rightarrow> nat \<Rightarrow> nat" where
  "spec_blocks_needed mip_height h = (mip_height + h - 1) div h"

definition spec_halve_block_height :: "nat \<Rightarrow> nat \<Rightarrow> nat option" where
  "spec_halve_block_height blocks start =
     while_option (\<lambda>c. c > 1 \<and> blocks \<le> 4 * c) (\<lambda>c. c div 2) start"

definition spec_auto_block_height :: "nat \<Rightarrow> nat option" where
  "spec_auto_block_height blocks = spec_halve_block_height blocks 16"

definition spec_halve_block_depth :: "nat \<Rightarrow> nat \<Rightarrow> nat option" where
  "spec_halve_block_depth mip_depth start =
     while_option (\<lambda>c. 2 * mip_depth \<le> c) (\<lambda>c. c div 2) start"

definition spec_auto_block_depth :: "nat \<Rightarrow> nat option" where
  "spec_auto_block_depth mip_depth = spec_halve_block_depth mip_depth 32"

subsection \<open>SizeInBytesRaw\<close>

text \<open>
  \<^verbatim>\<open>GetCompressionFactor\<close>, \<^verbatim>\<open>GetBytesPerPixel\<close> (\<^verbatim>\<open>video_core/surface.h\<close>) and
  \<^verbatim>\<open>Tegra::Texture::CalculateSize\<close> (\<^verbatim>\<open>video_core/textures/decoders.h\<close>) are parameters
  of the model. The product of the two \<^verbatim>\<open>u32\<close> factors wraps, and is widened to
  \<^verbatim>\<open>std::size_t\<close> for the division.
\<close>

type_synonym layout_size = "bool \<Rightarrow> u32 \<Rightarrow> u32 \<Rightarrow> u32 \<Rightarrow> u32 \<Rightarrow> u32 \<Rightarrow> u32 \<Rightarrow> size_t"

definition SizeInBytesRaw ::
  "(PixelFormat \<Rightarrow> u32) \<Rightarrow> (PixelFormat \<Rightarrow> u32) \<Rightarrow> layout_size \<Rightarrow>
   SurfaceParams \<Rightarrow> bool \<Rightarrow> size_t option" where
  "SizeInBytesRaw GetCompressionFactor GetBytesPerPixel CalculateSize this ignore_tiled =
     (let compression_factor = GetCompressionFactor (pixel_format this);
          bytes_per_pixel = GetBytesPerPixel (pixel_format this);
          uncompressed_size =
            CalculateSize (if ignore_tiled then False else is_tiled this) bytes_per_pixel
              (width this) (height this) (depth this) (block_height this) (block_depth this)
      in if compression_factor * compression_factor = 0 then None
         else Some (uncompressed_size div ucast (compression_factor * compression_factor)))"

text \<open>
  The round trip as the specification words it: the raw size, divided by the square of the
  compression factor, is the uncompressed layout size of the same dimensions.
\<close>

definition spec_raw_size_roundtrip ::
  "(PixelFormat \<Rightarrow> u32) \<Rightarrow> (PixelFormat \<Rightarrow> u32) \<Rightarrow> layout_size \<Rightarrow> SurfaceParams \<Rightarrow> bool" where
  "spec_raw_size_roundtrip GetCompressionFactor GetBytesPerPixel CalculateSize this =
     (case SizeInBytesRaw GetCompressionFactor GetBytesPerPixel CalculateSize this False of
        None \<Rightarrow> False
      | Some raw \<Rightarrow>
          raw div ucast (GetCompressionFactor (pixel_format this) *
                         GetCompressionFactor (pixel_format this)) =
          CalculateSize (is_tiled this) (GetBytesPerPixel (pixel_format this))
            (width this) (height this) (depth this) (block_height this) (block_depth this))"

text \<open>
  Stand-ins for the format tables and the layout function, used only to run the model on
  concrete inputs: a format compressed in 4 x 4 blocks of 8 bytes with default block
  height 1, and the row-major size of the surface.
\<close>

definition example_GetCompressionFactor :: "PixelFormat \<Rightarrow> u32" where
  "example_GetCompressionFactor f = 4"

definition example_GetBytesPerPixel :: "PixelFormat \<Rightarrow> u32" where
  "example_GetBytesPerPixel f = 8"

definition example_GetDefaultBlockHeight :: "PixelFormat \<Rightarrow> u32" where
  "example_GetDefaultBlockHeight f = 1"

definition example_CalculateSize :: layout_size where
  "example_CalculateSize tiled bytes_per_pixel w h d bh bd =
     ucast w * ucast h * ucast d * ucast bytes_per_pixel"

section \<open>Cache entries and the cache (CachedSurface, RasterizerCacheOpenGL)\<close>

subsection \<open>CachedSurface\<close>

text \<open>
  The members of \<^verbatim>\<open>CachedSurface\<close> that the functions of the header read or write, and
  \<^verbatim>\<open>cache_addr\<close>, the cache address kept by the base class \<^verbatim>\<open>RasterizerCacheObject\<close>.
  The OpenGL handles, the staging buffer and the swizzle are left out: no function
  defined in the header touches them.
\<close>

record CachedSurface =
  params :: SurfaceParams
  cached_size_in_bytes :: size_t
  memory_size :: size_t
  reinterpreted :: bool
  must_reload :: bool
  cpu_addr :: u64
  cache_addr :: CacheAddr

text \<open>
  Modelled from the spec: \<^verbatim>\<open>GetCacheAddr\<close> belongs to the base class
  \<^verbatim>\<open>RasterizerCacheObject\<close> (\<^verbatim>\<open>video_core/rasterizer_cache.h\<close>), which the header includes
  and does not define. It is the start of the address range that the entry represents
  (the "address" of the Reinterpretation Tracker's intervals); no function of the header
  changes it.
\<close>

definition GetCacheAddr :: "CachedSurface \<Rightarrow> CacheAddr" where
  "GetCacheAddr this = cache_addr this"

definition GetMemorySize :: "CachedSurface \<Rightarrow> size_t" where
  "GetMemorySize this = memory_size this"

definition MarkReinterpreted :: "CachedSurface \<Rightarrow> CachedSurface" where
  "MarkReinterpreted this = this\<lparr>reinterpreted := True\<rparr>"

definition IsReinterpreted :: "CachedSurface \<Rightarrow> bool" where
  "IsReinterpreted this = reinterpreted this"

definition MarkForReload :: "CachedSurface \<Rightarrow> bool \<Rightarrow> CachedSurface" where
  "MarkForReload this reload = this\<lparr>must_reload := reload\<rparr>"

subsection \<open>Intervals and the interval map\<close>

text \<open>
  \<^verbatim>\<open>SurfaceInterval\<close> is the discrete interval type of \<^verbatim>\<open>boost::icl\<close> over \<^verbatim>\<open>CacheAddr\<close>.
  \<^verbatim>\<open>right_open(lo, up)\<close> holds the addresses from \<^verbatim>\<open>lo\<close> up to but without \<^verbatim>\<open>up\<close>, and
  none when \<^verbatim>\<open>up <= lo\<close>.
\<close>

datatype SurfaceInterval = RightOpen CacheAddr CacheAddr

definition right_open :: "CacheAddr \<Rightarrow> CacheAddr \<Rightarrow> SurfaceInterval" where
  "right_open lo up = RightOpen lo up"

fun contains :: "SurfaceInterval \<Rightarrow> CacheAddr \<Rightarrow> bool" where
  "contains (RightOpen lo up) x = (lo \<le> x \<and> x < up)"

text \<open>
  A handle of a shared \<^verbatim>\<open>CachedSurface\<close> object (\<^verbatim>\<open>std::shared_ptr<CachedSurface>\<close>). The
  functions of the header dereference their \<^verbatim>\<open>Surface\<close> arguments without a test, so a
  handle that is passed in refers to an object; \<open>None\<close> of \<open>Surface option\<close> is the null
  pointer that \<^verbatim>\<open>CollideOnReinterpretedSurface\<close> returns.
\<close>

type_synonym Surface = nat

text \<open>
  \<^verbatim>\<open>boost::icl::interval_map<CacheAddr, Surface>\<close> maps every address to at most one
  surface; its segments are the maximal runs of addresses with the same surface. The
  model is that map from addresses. \<^verbatim>\<open>insert\<close> adds the pair on the addresses of the
  interval that have no value yet and keeps the values that are there; \<^verbatim>\<open>erase\<close> of an
  interval removes every address of the interval, whatever its value;
  \<^verbatim>\<open>equal_range\<close> of \<^verbatim>\<open>SurfaceInterval{addr}\<close>, the closed interval of one address, is the
  segment that holds the address, if there is one.
\<close>

type_synonym SurfaceIntervalCache = "CacheAddr \<Rightarrow> Surface option"

definition icl_insert ::
  "SurfaceInterval \<Rightarrow> Surface \<Rightarrow> SurfaceIntervalCache \<Rightarrow> SurfaceIntervalCache" where
  "icl_insert interval s m = (\<lambda>x. if contains interval x \<and> m x = None then Some s else m x)"

definition icl_erase :: "SurfaceInterval \<Rightarrow> SurfaceIntervalCache \<Rightarrow> SurfaceIntervalCache" where
  "icl_erase interval m = (\<lambda>x. if contains interval x then None else m x)"

definition GetReinterpretInterval :: "CachedSurface \<Rightarrow> SurfaceInterval" where
  "GetReinterpretInterval object =
     right_open (GetCacheAddr object + 1) (GetCacheAddr object + GetMemorySize object - 1)"

subsection \<open>RasterizerCacheOpenGL\<close>

text \<open>
  Modelled from the spec: the address-indexed store of the base class
  \<^verbatim>\<open>RasterizerCache<Surface>\<close> (\<^verbatim>\<open>video_core/rasterizer_cache.h\<close>), which the header
  includes and does not define. The store holds the live entries.
\<close>

type_synonym address_indexed_store = "Surface set"

text \<open>
  The state of the cache and of the entries it shares with its callers: the objects
  behind the handles, the store of the base class and the interval map
  \<^verbatim>\<open>reinterpreted_surfaces\<close>.
\<close>

record cache_state =
  objects :: "Surface \<Rightarrow> CachedSurface"
  registered :: address_indexed_store
  reinterpreted_surfaces :: SurfaceIntervalCache

text \<open>
  Modelled from the spec: \<^verbatim>\<open>RasterizerCache<Surface>::Register\<close> and
  \<^verbatim>\<open>RasterizerCache<Surface>::Unregister\<close> of the base class, which the header calls and
  does not define: they add the entry to the address-indexed store and remove it.
\<close>

definition RasterizerCache_Register :: "cache_state \<Rightarrow> Surface \<Rightarrow> cache_state" where
  "RasterizerCache_Register c object = c\<lparr>registered := insert object (registered c)\<rparr>"

definition RasterizerCache_Unregister :: "cache_state \<Rightarrow> Surface \<Rightarrow> cache_state" where
  "RasterizerCache_Unregister c object = c\<lparr>registered := registered c - {object}\<rparr>"

definition RegisterReinterpretSurface :: "cache_state \<Rightarrow> Surface \<Rightarrow> cache_state" where
  "RegisterReinterpretSurface c reinterpret_surface =
     (let interval = GetReinterpretInterval (objects c reinterpret_surface);
          c1 = c\<lparr>reinterpreted_surfaces :=
                  icl_insert interval reinterpret_surface (reinterpreted_surfaces c)\<rparr>
      in c1\<lparr>objects := (objects c1)
              (reinterpret_surface := MarkReinterpreted (objects c1 reinterpret_surface))\<rparr>)"

text \<open>
  The loop of \<^verbatim>\<open>CollideOnReinterpretedSurface\<close> returns in its first iteration: the
  result is the surface of the segment that holds \<^verbatim>\<open>addr\<close>, or the null pointer.
\<close>

definition CollideOnReinterpretedSurface :: "cache_state \<Rightarrow> CacheAddr \<Rightarrow> Surface option" where
  "CollideOnReinterpretedSurface c addr = reinterpreted_surfaces c addr"

definition Register :: "cache_state \<Rightarrow> Surface \<Rightarrow> cache_state" where
  "Register c object = RasterizerCache_Register c object"

definition Unregister :: "cache_state \<Rightarrow> Surface \<Rightarrow> cache_state" where
  "Unregister c object =
     (let c1 =
        (if IsReinterpreted (objects c object)
         then (let interval = GetReinterpretInterval (objects c object)
               in c\<lparr>reinterpreted_surfaces := icl_erase interval (reinterpreted_surfaces c)\<rparr>)
         else c)
      in RasterizerCache_Unregister c1 object)"

subsection \<open>Runs of the cache\<close>

text \<open>
  The operations of the header that change the state: the three of the cache, and the
  two flag setters of an entry, which are public.
\<close>

datatype cache_op =
    OpRegister Surface
  | OpUnregister Surface
  | OpRegisterReinterpretSurface Surface
  | OpMarkReinterpreted Surface
  | OpMarkForReload Surface bool

fun apply_op :: "cache_state \<Rightarrow> cache_op \<Rightarrow> cache_state" where
  "apply_op c (OpRegister s) = Register c s"
| "apply_op c (OpUnregister s) = Unregister c s"
| "apply_op c (OpRegisterReinterpretSurface s) = RegisterReinterpretSurface c s"
| "apply_op c (OpMarkReinterpreted s) = c\<lparr>objects := (objects c)(s := MarkReinterpreted (objects c s))\<rparr>"
| "apply_op c (OpMarkForReload s reload) =
     c\<lparr>objects := (objects c)(s := MarkForReload (objects c s) reload)\<rparr>"

fun run :: "cache_state \<Rightarrow> cache_op list \<Rightarrow> cache_state" where
  "run c [] = c"
| "run c (op # ops) = run (apply_op c op) ops"

text \<open>
  A cache starts with an empty store and an empty interval map; an entry starts with both
  flags cleared (the member initialisers \<^verbatim>\<open>reinterpreted = false\<close>, \<^verbatim>\<open>must_reload = false\<close>).
\<close>

definition initial :: "cache_state \<Rightarrow> bool" where
  "initial c \<longleftrightarrow>
     registered c = {} \<and> (\<forall>x. reinterpreted_surfaces c x = None) \<and>
     (\<forall>s. \<not> reinterpreted (objects c s) \<and> \<not> must_reload (objects c s))"

inductive reachable :: "cache_state \<Rightarrow> bool" where
  start: "initial c \<Longrightarrow> reachable c"
| step: "reachable c \<Longrightarrow> reachable (apply_op c op)"

text \<open>"An interval of the tracker is mapped to the entry": some address is.\<close>

definition tracked :: "cache_state \<Rightarrow> Surface \<Rightarrow> bool" where
  "tracked c s \<longleftrightarrow> (\<exists>x. reinterpreted_surfaces c x = Some s)"

text \<open>
  The invariant of the runs: an address of the interval map that is mapped to an entry
  lies in that entry's interval, and the entry is flagged.
\<close>

definition tracker_wf :: "cache_state \<Rightarrow> bool" where
  "tracker_wf c \<longleftrightarrow>
     (\<forall>x s. reinterpreted_surfaces c x = Some s \<longrightarrow>
        contains (GetReinterpretInterval (objects c s)) x \<and> reinterpreted (objects c s))"

text \<open>
  An entry of 0x40000 bytes at cache address 0x1000, and a fresh cache whose handles all
  refer to such an entry.
\<close>

definition example_entry :: CachedSurface where
  "example_entry =
     \<lparr>params = example_params, cached_size_in_bytes = 0x40000, memory_size = 0x40000,
      reinterpreted = False, must_reload = False, cpu_addr = 0x80001000, cache_addr = 0x1000\<rparr>"

definition example_cache :: cache_state where
  "example_cache =
     \<lparr>objects = (\<lambda>s. example_entry), registered = {}, reinterpreted_surfaces = (\<lambda>x. None)\<rparr>"

text \<open>
  Two entries of 0x100 bytes whose address ranges overlap, at cache addresses 0x1000 and
  0x1080, and a fresh cache in which handle 0 refers to the first and every other handle
  to the second.
\<close>

definition overlap_entry_0 :: CachedSurface where
  "overlap_entry_0 =
     \<lparr>params = example_params, cached_size_in_bytes = 0x100, memory_size = 0x100,
      reinterpreted = False, must_reload = False, cpu_addr = 0x80001000, cache_addr = 0x1000\<rparr>"

definition overlap_entry_1 :: CachedSurface where
  "overlap_entry_1 =
     \<lparr>params = example_params, cached_size_in_bytes = 0x100, memory_size = 0x100,
      reinterpreted = False, must_reload = False, cpu_addr = 0x80001080, cache_addr = 0x1080\<rparr>"

definition overlap_cache :: cache_state where
  "overlap_cache =
     \<lparr>objects = (\<lambda>s. if s = 0 then overlap_entry_0 else overlap_entry_1),
      registered = {}, reinterpreted_surfaces = (\<lambda>x. None)\<rparr>"

section \<open>Compatibility of descriptors\<close>

text \<open>
  C1 (as stated): IsCompatibleSurface holds exactly when pixel format, component type,
  width, height, target, depth and tiling flag match and, for a tiled descriptor, block
  height, block depth and tile width spacing match. This fails: the code compares the
  \<^verbatim>\<open>type\<close> member (the surface type) and never reads \<^verbatim>\<open>component_type\<close>, so two
  descriptors that differ in the component type alone are compatible.
\<close>

theorem IsCompatibleSurface_component_type_counterexample:
  "IsCompatibleSurface example_params (example_params\<lparr>component_type := 2\<rparr>) \<and>
   \<not> spec_compatible example_params (example_params\<lparr>component_type := 2\<rparr>)"
  by (simp add: IsCompatibleSurface_def spec_compatible_def example_params_def)

text \<open>
  C1 (amended): IsCompatibleSurface returns true if and only if pixel format, surface type
  (the member \<^verbatim>\<open>type\<close>), width, height, target, depth and tiling flag all match and, only
  when the descriptor is tiled, block height, block depth and tile width spacing match too.
\<close>

theorem IsCompatibleSurface_iff:
  "IsCompatibleSurface a b \<longleftrightarrow>
     pixel_format a = pixel_format b \<and> type a = type b \<and>
     width a = width b \<and> height a = height b \<and> target a = target b \<and>
     depth a = depth b \<and> is_tiled a = is_tiled b \<and>
     (is_tiled a \<longrightarrow>
        block_height a = block_height b \<and> block_depth a = block_depth b \<and>
        tile_width_spacing a = tile_width_spacing b)"
  by (auto simp: IsCompatibleSurface_def)

theorem IsCompatibleSurface_iff_witness:
  "is_tiled example_params \<and>
   IsCompatibleSurface example_params (example_params\<lparr>gpu_addr := 0x9000\<rparr>) \<and>
   \<not> IsCompatibleSurface example_params (example_params\<lparr>block_height := 8\<rparr>) \<and>
   IsCompatibleSurface (example_params\<lparr>is_tiled := False\<rparr>)
     (example_params\<lparr>is_tiled := False, block_height := 8\<rparr>)"
  using IsCompatibleSurface_iff [of example_params "example_params\<lparr>gpu_addr := 0x9000\<rparr>"]
    IsCompatibleSurface_iff [of example_params "example_params\<lparr>block_height := 8\<rparr>"]
    IsCompatibleSurface_iff [of "example_params\<lparr>is_tiled := False\<rparr>"
      "example_params\<lparr>is_tiled := False, block_height := 8\<rparr>"]
  by (simp add: example_params_def)

section \<open>Reserve keys\<close>

text \<open>
  C2 (as stated): two descriptors that differ only in their address fields, their
  render-target fields or their classification get the same reserve key. This fails for
  the host address: Create resets \<^verbatim>\<open>gpu_addr\<close> and leaves \<^verbatim>\<open>host_ptr\<close> in the key.
\<close>

theorem Create_host_ptr_counterexample:
  "spec_differ_only_addr_rt example_params (example_params\<lparr>host_ptr := 0x5000\<rparr>) \<and>
   Create example_params \<noteq> Create (example_params\<lparr>host_ptr := 0x5000\<rparr>)"
  by (simp add: spec_differ_only_addr_rt_def Create_def example_params_def)

text \<open>
  C2 (amended): two descriptors get the same reserve key exactly when they agree on every
  member other than the guest address \<^verbatim>\<open>gpu_addr\<close>, the render-target members \<^verbatim>\<open>rt\<close> and
  the classification \<^verbatim>\<open>identity\<close>; in particular, changing only those three members never
  changes the key.
\<close>

theorem Create_ignores_gpu_addr_rt_identity:
  "Create (p\<lparr>gpu_addr := g, rt := r, identity := c\<rparr>) = Create p \<and>
   (Create a = Create b \<longleftrightarrow>
      b = a\<lparr>gpu_addr := gpu_addr b, rt := rt b, identity := identity b\<rparr>)"
proof
  show "Create (p\<lparr>gpu_addr := g, rt := r, identity := c\<rparr>) = Create p"
    by (simp add: Create_def)
  show "Create a = Create b \<longleftrightarrow>
      b = a\<lparr>gpu_addr := gpu_addr b, rt := rt b, identity := identity b\<rparr>"
    by (cases a; cases b) (auto simp: Create_def)
qed

section \<open>Word arithmetic of the geometry functions\<close>

lemma unat_shr: "unat (drop_bit n (w::u32)) = unat w div 2 ^ n"
  unfolding unat_drop_bit_eq by (rule drop_bit_eq_div)

lemma unat_max1: "unat (max 1 (x::u32)) = max 1 (unat x)"
  by (simp add: max_def word_le_nat_alt)

lemma unat_ucast_u32_u64: "unat (ucast (x::u32) :: u64) = unat x"
proof -
  have "unat x < 2 ^ 32"
    using unsigned_less [of x] by simp
  also have "(2::nat) ^ 32 \<le> 2 ^ 64"
    by simp
  finally have "take_bit 64 (unat x) = unat x"
    by (simp add: take_bit_nat_eq_self)
  then show ?thesis
    by (simp add: unsigned_ucast_eq)
qed

lemma mip_dim_less:
  assumes "0 < (m::u32)"
  shows "unat (max 1 (drop_bit (unat m) (w::u32))) < 2 ^ 31"
proof -
  have "0 < unat m"
    using assms by (simp add: word_less_nat_alt)
  then have le: "(2::nat) ^ 1 \<le> 2 ^ unat m"
    by (intro power_increasing) simp_all
  have lt: "unat w < 2 ^ 32"
    using unsigned_less [of w] by simp
  have "unat w div 2 ^ unat m \<le> unat w div 2 ^ 1"
    using le by (intro div_le_mono2) simp_all
  then have "unat w div 2 ^ unat m < 2 ^ 31"
    using lt by simp
  then show ?thesis
    by (simp add: unat_max1 unat_shr)
qed

lemma blocks_in_y_unat:
  assumes "unat a < 2 ^ 31" "0 < unat (h::u32)" "unat h \<le> 2 ^ 31"
  shows "unat ((a + h - 1) div h) = (unat a + unat h - 1) div unat h"
proof -
  have "unat a + unat h < 2 ^ LENGTH(32)"
    using assms by simp
  then have s: "unat (a + h) = unat a + unat h"
    by (simp only: unat_add_lem)
  have "1 \<le> unat (a + h)"
    using s assms by simp
  then have "(1::u32) \<le> a + h"
    by (simp add: word_le_nat_alt)
  then have "unat (a + h - 1) = unat (a + h) - unat (1::u32)"
    by (rule unat_sub)
  then show ?thesis
    using s by (simp add: unat_div)
qed

subsection \<open>Closed forms of the two halving loops\<close>

lemma MipBlockHeight_loop_1: "MipBlockHeight_loop b 1 = 1"
  by (subst MipBlockHeight_loop.simps) simp

lemma MipBlockHeight_loop_2: "MipBlockHeight_loop b 2 = (if b \<le> 8 then 1 else 2)"
  by (subst MipBlockHeight_loop.simps) (simp add: MipBlockHeight_loop_1)

lemma MipBlockHeight_loop_4:
  "MipBlockHeight_loop b 4 = (if b \<le> 8 then 1 else if b \<le> 16 then 2 else 4)"
  by (subst MipBlockHeight_loop.simps) (auto simp add: MipBlockHeight_loop_2 word_le_nat_alt)

lemma MipBlockHeight_loop_8:
  "MipBlockHeight_loop b 8 =
     (if b \<le> 8 then 1 else if b \<le> 16 then 2 else if b \<le> 32 then 4 else 8)"
  by (subst MipBlockHeight_loop.simps) (auto simp add: MipBlockHeight_loop_4 word_le_nat_alt)

lemma MipBlockHeight_loop_16:
  "MipBlockHeight_loop b 16 =
     (if b \<le> 8 then 1 else if b \<le> 16 then 2 else if b \<le> 32 then 4
      else if b \<le> 64 then 8 else 16)"
  by (subst MipBlockHeight_loop.simps) (auto simp add: MipBlockHeight_loop_8 word_le_nat_alt)

lemma MipBlockHeight_loop_16_unat:
  "unat (MipBlockHeight_loop b 16) =
     (if unat b \<le> 8 then 1 else if unat b \<le> 16 then 2 else if unat b \<le> 32 then 4
      else if unat b \<le> 64 then 8 else 16)"
  by (simp add: MipBlockHeight_loop_16 word_le_nat_alt)

lemma MipBlockDepth_loop_1: "MipBlockDepth_loop d 1 = 1"
  by (subst MipBlockDepth_loop.simps) simp

lemma MipBlockDepth_loop_2: "MipBlockDepth_loop d 2 = (if d * 2 \<le> 2 then 1 else 2)"
  by (subst MipBlockDepth_loop.simps) (simp add: MipBlockDepth_loop_1)

lemma MipBlockDepth_loop_4:
  "MipBlockDepth_loop d 4 = (if d * 2 \<le> 2 then 1 else if d * 2 \<le> 4 then 2 else 4)"
  by (subst MipBlockDepth_loop.simps) (auto simp add: MipBlockDepth_loop_2 word_le_nat_alt)

lemma MipBlockDepth_loop_8:
  "MipBlockDepth_loop d 8 =
     (if d * 2 \<le> 2 then 1 else if d * 2 \<le> 4 then 2 else if d * 2 \<le> 8 then 4 else 8)"
  by (subst MipBlockDepth_loop.simps) (auto simp add: MipBlockDepth_loop_4 word_le_nat_alt)

lemma MipBlockDepth_loop_16:
  "MipBlockDepth_loop d 16 =
     (if d * 2 \<le> 2 then 1 else if d * 2 \<le> 4 then 2 else if d * 2 \<le> 8 then 4
      else if d * 2 \<le> 16 then 8 else 16)"
  by (subst MipBlockDepth_loop.simps) (auto simp add: MipBlockDepth_loop_8 word_le_nat_alt)

lemma MipBlockDepth_loop_32:
  "MipBlockDepth_loop d 32 =
     (if d * 2 \<le> 2 then 1 else if d * 2 \<le> 4 then 2 else if d * 2 \<le> 8 then 4
      else if d * 2 \<le> 16 then 8 else if d * 2 \<le> 32 then 16 else 32)"
  by (subst MipBlockDepth_loop.simps) (auto simp add: MipBlockDepth_loop_16 word_le_nat_alt)

lemma MipBlockDepth_loop_32_unat:
  assumes "unat d < 2 ^ 31"
  shows "unat (MipBlockDepth_loop d 32) =
     (if unat d \<le> 1 then 1 else if unat d \<le> 2 then 2 else if unat d \<le> 4 then 4
      else if unat d \<le> 8 then 8 else if unat d \<le> 16 then 16 else 32)"
proof -
  have "unat d * unat (2::u32) < 2 ^ LENGTH(32)"
    using assms by simp
  then have "unat (d * 2) = unat d * unat (2::u32)"
    by (simp only: unat_mult_lem)
  then have "unat (d * 2) = 2 * unat d"
    by simp
  then show ?thesis
    by (simp add: MipBlockDepth_loop_32 word_le_nat_alt)
qed

lemma spec_halve_block_height_unfold:
  "spec_halve_block_height b c =
     (if 1 < c \<and> b \<le> 4 * c then spec_halve_block_height b (c div 2) else Some c)"
  unfolding spec_halve_block_height_def by (subst while_option_unfold) simp

lemma spec_halve_block_height_1: "spec_halve_block_height b (Suc 0) = Some (Suc 0)"
  by (subst spec_halve_block_height_unfold) simp

lemma spec_halve_block_height_2:
  "spec_halve_block_height b 2 = Some (if b \<le> 8 then 1 else 2)"
  by (subst spec_halve_block_height_unfold) (simp add: spec_halve_block_height_1)

lemma spec_halve_block_height_4:
  "spec_halve_block_height b 4 = Some (if b \<le> 8 then 1 else if b \<le> 16 then 2 else 4)"
  by (subst spec_halve_block_height_unfold) (simp add: spec_halve_block_height_2)

lemma spec_halve_block_height_8:
  "spec_halve_block_height b 8 =
     Some (if b \<le> 8 then 1 else if b \<le> 16 then 2 else if b \<le> 32 then 4 else 8)"
  by (subst spec_halve_block_height_unfold) (simp add: spec_halve_block_height_4)

lemma spec_auto_block_height_closed:
  "spec_auto_block_height b =
     Some (if b \<le> 8 then 1 else if b \<le> 16 then 2 else if b \<le> 32 then 4
           else if b \<le> 64 then 8 else 16)"
  unfolding spec_auto_block_height_def
  by (subst spec_halve_block_height_unfold) (simp add: spec_halve_block_height_8)

lemma spec_halve_block_depth_unfold:
  "spec_halve_block_depth d c =
     (if 2 * d \<le> c then spec_halve_block_depth d (c div 2) else Some c)"
  unfolding spec_halve_block_depth_def by (subst while_option_unfold) simp

lemma spec_halve_block_depth_1: "0 < d \<Longrightarrow> spec_halve_block_depth d (Suc 0) = Some (Suc 0)"
  by (subst spec_halve_block_depth_unfold) simp

lemma spec_halve_block_depth_2:
  "0 < d \<Longrightarrow> spec_halve_block_depth d 2 = Some (if d \<le> 1 then 1 else 2)"
  by (subst spec_halve_block_depth_unfold) (simp add: spec_halve_block_depth_1)

lemma spec_halve_block_depth_4:
  "0 < d \<Longrightarrow> spec_halve_block_depth d 4 = Some (if d \<le> 1 then 1 else if d \<le> 2 then 2 else 4)"
  by (subst spec_halve_block_depth_unfold) (simp add: spec_halve_block_depth_2)

lemma spec_halve_block_depth_8:
  "0 < d \<Longrightarrow> spec_halve_block_depth d 8 =
     Some (if d \<le> 1 then 1 else if d \<le> 2 then 2 else if d \<le> 4 then 4 else 8)"
  by (subst spec_halve_block_depth_unfold) (simp add: spec_halve_block_depth_4)

lemma spec_halve_block_depth_16:
  "0 < d \<Longrightarrow> spec_halve_block_depth d 16 =
     Some (if d \<le> 1 then 1 else if d \<le> 2 then 2 else if d \<le> 4 then 4
           else if d \<le> 8 then 8 else 16)"
  by (subst spec_halve_block_depth_unfold) (simp add: spec_halve_block_depth_8)

lemma spec_auto_block_depth_closed:
  "0 < d \<Longrightarrow> spec_auto_block_depth d =
     Some (if d \<le> 1 then 1 else if d \<le> 2 then 2 else if d \<le> 4 then 4
           else if d \<le> 8 then 8 else if d \<le> 16 then 16 else 32)"
  unfolding spec_auto_block_depth_def
  by (subst spec_halve_block_depth_unfold) (simp add: spec_halve_block_depth_16)

lemma div_div_self_iff:
  fixes u k :: nat
  assumes "0 < k"
  shows "u div k div k = u \<longleftrightarrow> u = 0 \<or> k = 1"
proof (cases "k = 1")
  case True
  then show ?thesis
    by simp
next
  case False
  then have k2: "2 \<le> k"
    using assms by simp
  show ?thesis
  proof (cases "u = 0")
    case True
    then show ?thesis
      by simp
  next
    case u: False
    have "u div k div k \<le> u div k"
      by (rule div_le_dividend)
    also have "u div k < u"
      using u k2 by (intro div_less_dividend) simp_all
    finally show ?thesis
      using u False by simp
  qed
qed

section \<open>Raw size of a surface\<close>

text \<open>
  C6 (as stated): for a tiled descriptor, SizeInBytesRaw divided by the square of the
  compression factor equals the uncompressed layout size of the same dimensions. This
  fails for a compressed format: SizeInBytesRaw is already the quotient, so dividing it
  once more gives a smaller number (here 0x80000 bytes uncompressed, raw size 0x8000).
\<close>

theorem SizeInBytesRaw_roundtrip_counterexample:
  "is_tiled example_params \<and>
   \<not> spec_raw_size_roundtrip example_GetCompressionFactor example_GetBytesPerPixel
       example_CalculateSize example_params"
  by (simp add: spec_raw_size_roundtrip_def SizeInBytesRaw_def example_params_def
      example_GetCompressionFactor_def example_GetBytesPerPixel_def example_CalculateSize_def)

text \<open>
  C6 (amended): SizeInBytesRaw returns the uncompressed layout size, computed by
  CalculateSize for the descriptor's tiling flag, bytes per pixel, dimensions and block
  sizes, divided by the square of the compression factor (a \<^verbatim>\<open>u32\<close> product, not zero).
  Multiplying the result by that square gives the uncompressed size back whenever the
  square divides it; dividing the result by the square again gives the uncompressed size
  only when that size is 0 or the square is 1.
\<close>

theorem SizeInBytesRaw_quotient:
  assumes cf: "cf = GetCompressionFactor (pixel_format p)"
    and nz: "cf * cf \<noteq> 0"
    and U: "U = CalculateSize (is_tiled p) (GetBytesPerPixel (pixel_format p))
              (width p) (height p) (depth p) (block_height p) (block_depth p)"
  shows "\<exists>raw. SizeInBytesRaw GetCompressionFactor GetBytesPerPixel CalculateSize p False = Some raw \<and>
           unat raw = unat U div unat (cf * cf) \<and>
           (unat (cf * cf) dvd unat U \<longrightarrow> unat raw * unat (cf * cf) = unat U) \<and>
           (raw div ucast (cf * cf) = U \<longleftrightarrow> U = 0 \<or> cf * cf = 1)"
proof -
  let ?k = "ucast (cf * cf) :: size_t"
  have raw: "SizeInBytesRaw GetCompressionFactor GetBytesPerPixel CalculateSize p False =
      Some (U div ?k)"
    using nz by (simp add: SizeInBytesRaw_def Let_def cf U)
  have k: "unat ?k = unat (cf * cf)"
    by (rule unat_ucast_u32_u64)
  have kpos: "0 < unat (cf * cf)"
    using nz by (simp add: unat_gt_0)
  have q: "unat (U div ?k) = unat U div unat (cf * cf)"
    by (simp add: unat_div k)
  have "U div ?k div ?k = U \<longleftrightarrow> unat (U div ?k div ?k) = unat U"
    by (simp only: word_unat_eq_iff)
  also have "\<dots> \<longleftrightarrow> unat U div unat (cf * cf) div unat (cf * cf) = unat U"
    by (simp add: unat_div k)
  also have "\<dots> \<longleftrightarrow> unat U = 0 \<or> unat (cf * cf) = 1"
    using kpos by (rule div_div_self_iff)
  also have "\<dots> \<longleftrightarrow> U = 0 \<or> cf * cf = 1"
    by (simp add: word_unat_eq_iff)
  finally have rt: "U div ?k div ?k = U \<longleftrightarrow> U = 0 \<or> cf * cf = 1" .
  show ?thesis
    using raw q rt by auto
qed

theorem SizeInBytesRaw_quotient_witness:
  "(4::u32) = example_GetCompressionFactor (pixel_format example_params) \<and>
   (4::u32) * 4 \<noteq> 0 \<and>
   is_tiled example_params \<and>
   example_CalculateSize True 8 256 256 1 16 1 = 0x80000 \<and>
   SizeInBytesRaw example_GetCompressionFactor example_GetBytesPerPixel example_CalculateSize
     example_params False = Some 0x8000"
  using SizeInBytesRaw_quotient [of 4 example_GetCompressionFactor example_params
      "0x80000" example_CalculateSize example_GetBytesPerPixel]
  by (auto simp add: example_params_def example_GetCompressionFactor_def
      example_GetBytesPerPixel_def example_CalculateSize_def SizeInBytesRaw_def)

section \<open>Mip level dimensions\<close>

text \<open>
  C7: for every mip level \<open>m\<close> (below 32, the width of the shifted \<^verbatim>\<open>u32\<close>), MipWidth is
  \<open>max 1 (width >> m)\<close>, and MipDepth is the depth itself for a layered surface and
  \<open>max 1 (depth >> m)\<close> otherwise. The values are read as natural numbers, where the
  shift is the division by \<open>2 ^ m\<close>.
\<close>

theorem Mip_dimensions:
  assumes "m < 32"
  shows "map_option unat (MipWidth p m) = Some (max 1 (unat (width p) div 2 ^ unat m)) \<and>
         map_option unat (MipDepth p m) =
           Some (if is_layered p then unat (depth p)
                 else max 1 (unat (depth p) div 2 ^ unat m))"
  using assms by (simp add: MipWidth_def MipDepth_def shr_u32_def unat_max1 unat_shr)

theorem Mip_dimensions_witness:
  "(1::u32) < 32 \<and>
   MipWidth example_params 1 = Some 128 \<and>
   MipDepth (example_params\<lparr>depth := 6, is_layered := True\<rparr>) 1 = Some 6 \<and>
   MipDepth (example_params\<lparr>depth := 6\<rparr>) 1 = Some 3 \<and>
   MipDepth example_params 1 = Some 1"
  using Mip_dimensions [of 1 example_params]
    Mip_dimensions [of 1 "example_params\<lparr>depth := 6, is_layered := True\<rparr>"]
    Mip_dimensions [of 1 "example_params\<lparr>depth := 6\<rparr>"]
  by (simp add: example_params_def MipWidth_def MipDepth_def shr_u32_def)

section \<open>Automatic block height\<close>

text \<open>
  C8: for a mip level \<open>m > 0\<close>, MipBlockHeight returns what the specification's loop
  returns: start at 16 and halve while the candidate is above 1 and the number of blocks
  of the format's default height that cover the mip's height is at most 4 times the
  candidate. For \<open>m = 0\<close> it returns the stored block height. The default block height is
  not zero and at most \<open>2 ^ 31\<close>, so that the rounding sum of the code does not wrap.
\<close>

theorem MipBlockHeight_auto:
  assumes "0 < m" "m < 32"
    and "0 < GetDefaultBlockHeight (pixel_format p)"
    and "unat (GetDefaultBlockHeight (pixel_format p)) \<le> 2 ^ 31"
  shows "(\<exists>H. MipHeight p m = Some H \<and>
            MipBlockHeight GetDefaultBlockHeight p m \<noteq> None \<and>
            map_option unat (MipBlockHeight GetDefaultBlockHeight p m) =
              spec_auto_block_height
                (spec_blocks_needed (unat H) (unat (GetDefaultBlockHeight (pixel_format p))))) \<and>
         MipBlockHeight GetDefaultBlockHeight p 0 = Some (block_height p)"
proof -
  let ?h = "GetDefaultBlockHeight (pixel_format p)"
  let ?H = "max 1 (drop_bit (unat m) (height p))"
  have H: "MipHeight p m = Some ?H"
    using assms(2) by (simp add: MipHeight_def shr_u32_def)
  have m0: "m \<noteq> 0" and h0: "?h \<noteq> 0"
    using assms(1,3) by auto
  have bh: "MipBlockHeight GetDefaultBlockHeight p m =
      Some (MipBlockHeight_loop ((?H + ?h - 1) div ?h) 16)"
    using m0 h0 by (simp add: MipBlockHeight_def H Let_def)
  have "0 < unat ?h"
    using assms(3) by (simp add: word_less_nat_alt)
  then have "unat ((?H + ?h - 1) div ?h) = spec_blocks_needed (unat ?H) (unat ?h)"
    unfolding spec_blocks_needed_def
    using mip_dim_less [OF assms(1)] assms(4) by (intro blocks_in_y_unat)
  then have "map_option unat (MipBlockHeight GetDefaultBlockHeight p m) =
      spec_auto_block_height (spec_blocks_needed (unat ?H) (unat ?h))"
    by (simp only: bh option.map MipBlockHeight_loop_16_unat spec_auto_block_height_closed)
  moreover have "MipBlockHeight GetDefaultBlockHeight p 0 = Some (block_height p)"
    by (simp add: MipBlockHeight_def)
  ultimately show ?thesis
    using H bh by simp
qed

theorem MipBlockHeight_auto_witness:
  "(0::u32) < 1 \<and> (1::u32) < 32 \<and>
   0 < example_GetDefaultBlockHeight (pixel_format example_params) \<and>
   unat (example_GetDefaultBlockHeight (pixel_format example_params)) \<le> 2 ^ 31 \<and>
   MipHeight (example_params\<lparr>height := 40\<rparr>) 1 = Some 20 \<and>
   spec_blocks_needed 20 1 = 20 \<and>
   spec_auto_block_height 20 = Some 4 \<and>
   map_option unat
     (MipBlockHeight example_GetDefaultBlockHeight (example_params\<lparr>height := 40\<rparr>) 1) = Some 4 \<and>
   MipBlockHeight example_GetDefaultBlockHeight (example_params\<lparr>height := 40\<rparr>) 0 = Some 16"
  using MipBlockHeight_auto [of 1 example_GetDefaultBlockHeight "example_params\<lparr>height := 40\<rparr>"]
  by (auto simp add: example_params_def example_GetDefaultBlockHeight_def MipHeight_def shr_u32_def
      spec_blocks_needed_def spec_auto_block_height_closed)

section \<open>Automatic block depth\<close>

text \<open>
  C9: for a mip level \<open>m > 0\<close>, MipBlockDepth is 1 for a layered surface. Otherwise it is
  what the specification's loop returns (start at 32, halve while twice the mip depth is
  at most the candidate), except that a candidate left at 32 becomes 16 when the mip's
  block height is at least 4.
\<close>

theorem MipBlockDepth_auto:
  assumes "0 < m" "m < 32"
    and "MipBlockHeight GetDefaultBlockHeight p m = Some bh"
  shows "(is_layered p \<longrightarrow> MipBlockDepth GetDefaultBlockHeight p m = Some 1) \<and>
         (\<not> is_layered p \<longrightarrow>
            (\<exists>d c. MipDepth p m = Some d \<and> spec_auto_block_depth (unat d) = Some c \<and>
               map_option unat (MipBlockDepth GetDefaultBlockHeight p m) =
                 Some (if c = 32 \<and> 4 \<le> unat bh then 16 else c)))"
proof (intro conjI impI)
  have m0: "m \<noteq> 0"
    using assms(1) by auto
  show "MipBlockDepth GetDefaultBlockHeight p m = Some 1" if "is_layered p"
    using that m0 by (simp add: MipBlockDepth_def)
  show "\<exists>d c. MipDepth p m = Some d \<and> spec_auto_block_depth (unat d) = Some c \<and>
      map_option unat (MipBlockDepth GetDefaultBlockHeight p m) =
        Some (if c = 32 \<and> 4 \<le> unat bh then 16 else c)" if nl: "\<not> is_layered p"
  proof -
    let ?d = "max 1 (drop_bit (unat m) (depth p))"
    let ?c = "if unat ?d \<le> 1 then 1 else if unat ?d \<le> 2 then 2 else if unat ?d \<le> 4 then 4
           else if unat ?d \<le> 8 then 8 else if unat ?d \<le> 16 then 16 else (32::nat)"
    have D: "MipDepth p m = Some ?d"
      using assms(2) nl by (simp add: MipDepth_def shr_u32_def)
    have pos: "0 < unat ?d"
      by (simp add: unat_max1)
    have c: "spec_auto_block_depth (unat ?d) = Some ?c"
      using pos by (rule spec_auto_block_depth_closed)
    have loop: "unat (MipBlockDepth_loop ?d 32) = ?c"
      using mip_dim_less [OF assms(1)] by (rule MipBlockDepth_loop_32_unat)
    have eq32: "MipBlockDepth_loop ?d 32 = 32 \<longleftrightarrow> ?c = 32"
    proof -
      have "MipBlockDepth_loop ?d 32 = 32 \<longleftrightarrow> unat (MipBlockDepth_loop ?d 32) = unat (32::u32)"
        by (simp only: word_unat_eq_iff)
      then show ?thesis
        unfolding loop by simp
    qed
    have "map_option unat (MipBlockDepth GetDefaultBlockHeight p m) =
        Some (if ?c = 32 \<and> 4 \<le> unat bh then 16 else ?c)"
    proof (cases "?c = 32")
      case True
      then have "MipBlockDepth_loop ?d 32 = 32"
        using eq32 by simp
      then show ?thesis
        using m0 nl True by (simp add: MipBlockDepth_def D assms(3) word_le_nat_alt)
    next
      case False
      then have "MipBlockDepth_loop ?d 32 \<noteq> 32"
        using eq32 by simp
      then show ?thesis
        using m0 nl False loop by (simp add: MipBlockDepth_def D)
    qed
    then show ?thesis
      using D c by blast
  qed
qed

theorem MipBlockDepth_auto_witness:
  "(0::u32) < 1 \<and> (1::u32) < 32 \<and>
   MipBlockHeight example_GetDefaultBlockHeight (example_params\<lparr>depth := 64\<rparr>) 1 = Some 16 \<and>
   MipBlockHeight example_GetDefaultBlockHeight
     (example_params\<lparr>depth := 6, is_layered := True\<rparr>) 1 = Some 16 \<and>
   MipDepth (example_params\<lparr>depth := 64\<rparr>) 1 = Some 32 \<and>
   spec_auto_block_depth 32 = Some 32 \<and>
   map_option unat
     (MipBlockDepth example_GetDefaultBlockHeight (example_params\<lparr>depth := 64\<rparr>) 1) = Some 16 \<and>
   MipBlockDepth example_GetDefaultBlockHeight
     (example_params\<lparr>depth := 6, is_layered := True\<rparr>) 1 = Some 1"
proof -
  have bh1: "MipBlockHeight example_GetDefaultBlockHeight (example_params\<lparr>depth := 64\<rparr>) 1 = Some 16"
    by (simp add: MipBlockHeight_def MipHeight_def shr_u32_def example_params_def
        example_GetDefaultBlockHeight_def MipBlockHeight_loop_16)
  have bh2: "MipBlockHeight example_GetDefaultBlockHeight
      (example_params\<lparr>depth := 6, is_layered := True\<rparr>) 1 = Some 16"
    by (simp add: MipBlockHeight_def MipHeight_def shr_u32_def example_params_def
        example_GetDefaultBlockHeight_def MipBlockHeight_loop_16)
  have d: "MipDepth (example_params\<lparr>depth := 64\<rparr>) 1 = Some 32"
    by (simp add: MipDepth_def shr_u32_def example_params_def)
  have nl: "\<not> is_layered (example_params\<lparr>depth := 64\<rparr>)"
    and l: "is_layered (example_params\<lparr>depth := 6, is_layered := True\<rparr>)"
    by (simp_all add: example_params_def)
  have s: "spec_auto_block_depth 32 = Some 32"
    by (simp add: spec_auto_block_depth_closed)
  show ?thesis
    using MipBlockDepth_auto [of 1 example_GetDefaultBlockHeight "example_params\<lparr>depth := 64\<rparr>" 16]
      MipBlockDepth_auto [of 1 example_GetDefaultBlockHeight
        "example_params\<lparr>depth := 6, is_layered := True\<rparr>" 16]
      bh1 bh2 d nl l s
    by auto
qed

section \<open>Runs of the cache keep the tracker well formed\<close>

lemma objects_geometry_apply_op:
  "cache_addr (objects (apply_op c op) s) = cache_addr (objects c s) \<and>
   memory_size (objects (apply_op c op) s) = memory_size (objects c s)"
  by (cases op)
    (simp_all add: Register_def Unregister_def RegisterReinterpretSurface_def
      RasterizerCache_Register_def RasterizerCache_Unregister_def MarkReinterpreted_def
      MarkForReload_def Let_def)

lemma interval_apply_op:
  "GetReinterpretInterval (objects (apply_op c op) s) = GetReinterpretInterval (objects c s)"
  by (simp add: GetReinterpretInterval_def GetCacheAddr_def GetMemorySize_def
      objects_geometry_apply_op)

lemma reinterpreted_apply_op:
  "reinterpreted (objects c s) \<Longrightarrow> reinterpreted (objects (apply_op c op) s)"
  by (cases op)
    (auto simp add: Register_def Unregister_def RegisterReinterpretSurface_def
      RasterizerCache_Register_def RasterizerCache_Unregister_def MarkReinterpreted_def
      MarkForReload_def Let_def)

lemma reinterpreted_run:
  "reinterpreted (objects c s) \<Longrightarrow> reinterpreted (objects (run c ops) s)"
proof (induction ops arbitrary: c)
  case Nil
  then show ?case by simp
next
  case (Cons op ops)
  from Cons.prems have "reinterpreted (objects (apply_op c op) s)"
    by (rule reinterpreted_apply_op)
  then show ?case
    using Cons.IH by simp
qed

lemma tracker_wf_apply_op:
  assumes "tracker_wf c"
  shows "tracker_wf (apply_op c op)"
  unfolding tracker_wf_def
proof (intro allI impI)
  fix x s
  assume a: "reinterpreted_surfaces (apply_op c op) x = Some s"
  have old: "reinterpreted_surfaces c x = Some s \<Longrightarrow>
      contains (GetReinterpretInterval (objects (apply_op c op) s)) x \<and>
      reinterpreted (objects (apply_op c op) s)"
    using assms unfolding tracker_wf_def
    by (simp add: interval_apply_op reinterpreted_apply_op)
  show "contains (GetReinterpretInterval (objects (apply_op c op) s)) x \<and>
      reinterpreted (objects (apply_op c op) s)"
  proof (cases op)
    case (OpRegister t)
    then have "reinterpreted_surfaces c x = Some s"
      using a by (simp add: Register_def RasterizerCache_Register_def)
    then show ?thesis by (rule old)
  next
    case (OpUnregister t)
    then have "reinterpreted_surfaces c x = Some s"
      using a by (simp add: Unregister_def RasterizerCache_Unregister_def icl_erase_def Let_def
          split: if_splits)
    then show ?thesis by (rule old)
  next
    case (OpRegisterReinterpretSurface t)
    show ?thesis
    proof (cases "reinterpreted_surfaces c x = Some s")
      case True
      then show ?thesis by (rule old)
    next
      case False
      then have "s = t \<and> contains (GetReinterpretInterval (objects c t)) x"
        using a OpRegisterReinterpretSurface
        by (simp add: RegisterReinterpretSurface_def icl_insert_def Let_def split: if_splits)
      then show ?thesis
        using OpRegisterReinterpretSurface
        by (simp add: interval_apply_op [of c op, symmetric])
          (simp add: RegisterReinterpretSurface_def MarkReinterpreted_def Let_def)
    qed
  next
    case (OpMarkReinterpreted t)
    then have "reinterpreted_surfaces c x = Some s"
      using a by simp
    then show ?thesis by (rule old)
  next
    case (OpMarkForReload t r)
    then have "reinterpreted_surfaces c x = Some s"
      using a by simp
    then show ?thesis by (rule old)
  qed
qed

lemma reachable_tracker_wf: "reachable c \<Longrightarrow> tracker_wf c"
proof (induction rule: reachable.induct)
  case (start c)
  then show ?case by (simp add: initial_def tracker_wf_def)
next
  case (step c op)
  from step.IH show ?case by (rule tracker_wf_apply_op)
qed

lemma erase_own_interval:
  assumes "tracker_wf c"
  shows "icl_erase (GetReinterpretInterval (objects c s)) (reinterpreted_surfaces c) x \<noteq> Some s"
  using assms by (auto simp add: icl_erase_def tracker_wf_def)

lemma Unregister_not_tracked:
  assumes "tracker_wf c"
  shows "\<not> tracked (Unregister c s) s"
proof (cases "reinterpreted (objects c s)")
  case True
  then show ?thesis
    using erase_own_interval [OF assms, of s]
    by (simp add: tracked_def Unregister_def IsReinterpreted_def RasterizerCache_Unregister_def
        Let_def)
next
  case False
  then have "\<And>x. reinterpreted_surfaces c x \<noteq> Some s"
    using assms by (auto simp add: tracker_wf_def)
  then show ?thesis
    using False
    by (simp add: tracked_def Unregister_def IsReinterpreted_def RasterizerCache_Unregister_def)
qed

lemma example_cache_initial: "initial example_cache"
  by (simp add: initial_def example_cache_def example_entry_def)

lemma example_interval:
  "GetReinterpretInterval example_entry = RightOpen 0x1001 0x40FFF"
  by (simp add: GetReinterpretInterval_def GetCacheAddr_def GetMemorySize_def right_open_def
      example_entry_def)

lemma start_not_in_interval: "\<not> contains (right_open (a + 1) (a + sz - 1)) a"
proof (cases "a = - 1")
  case True
  have "\<not> a < a + sz - 1"
    unfolding True by (simp add: word_order.extremum_strict not_less)
  then show ?thesis
    by (simp add: right_open_def)
next
  case False
  then have "1 + a \<noteq> 0"
    by (metis add.commute add_eq_0_iff)
  then have "unat (1 + a) = Suc (unat a)"
    by (rule unatSuc)
  then have "\<not> a + 1 \<le> a"
    by (simp add: word_le_nat_alt add.commute)
  then show ?thesis
    by (simp add: right_open_def)
qed

lemma interval_unat:
  fixes a sz :: "64 word"
  assumes "sz \<noteq> 0" and "unat a + unat sz < 2 ^ 64"
  shows "contains (right_open (a + 1) (a + sz - 1)) x \<longleftrightarrow>
         unat a < unat x \<and> unat x < unat a + unat sz - 1"
proof -
  have szpos: "0 < unat sz"
    using assms(1) by (simp add: unat_gt_0)
  have "unat a + unat (1::64 word) < 2 ^ LENGTH(64)"
    using assms(2) szpos by simp
  then have lo: "unat (a + 1) = unat a + 1"
    by (simp only: unat_add_lem) simp
  have "unat a + unat sz < 2 ^ LENGTH(64)"
    using assms(2) by simp
  then have sum: "unat (a + sz) = unat a + unat sz"
    by (simp only: unat_add_lem)
  then have "1 \<le> unat (a + sz)"
    using szpos by simp
  then have "(1::64 word) \<le> a + sz"
    by (simp add: word_le_nat_alt)
  then have "unat (a + sz - 1) = unat (a + sz) - unat (1::64 word)"
    by (rule unat_sub)
  then have up: "unat (a + sz - 1) = unat a + unat sz - 1"
    using sum by simp
  show ?thesis
    by (simp add: right_open_def word_le_nat_alt word_less_nat_alt lo up) arith
qed

section \<open>The interval of a reinterpreted entry\<close>

lemma overlap_cache_initial: "initial overlap_cache"
  by (simp add: initial_def overlap_cache_def overlap_entry_0_def overlap_entry_1_def)

lemma overlap_interval_0:
  "GetReinterpretInterval overlap_entry_0 = RightOpen 0x1001 0x10FF"
  by (simp add: GetReinterpretInterval_def GetCacheAddr_def GetMemorySize_def right_open_def
      overlap_entry_0_def)

lemma overlap_interval_1:
  "GetReinterpretInterval overlap_entry_1 = RightOpen 0x1081 0x117F"
  by (simp add: GetReinterpretInterval_def GetCacheAddr_def GetMemorySize_def right_open_def
      overlap_entry_1_def)

lemma overlap_cache_registered_0:
  "reachable (RegisterReinterpretSurface overlap_cache 0)"
proof -
  have "reachable overlap_cache"
    by (rule reachable.start) (rule overlap_cache_initial)
  then have "reachable (apply_op overlap_cache (OpRegisterReinterpretSurface 0))"
    by (rule reachable.step)
  then show ?thesis
    by simp
qed

lemma overlap_cache_lookup_0:
  "CollideOnReinterpretedSurface (RegisterReinterpretSurface overlap_cache 0) x =
     (if 0x1001 \<le> x \<and> x < 0x10FF then Some 0 else None)"
  by (simp add: CollideOnReinterpretedSurface_def RegisterReinterpretSurface_def icl_insert_def
      Let_def overlap_cache_def overlap_interval_0)

lemma overlap_cache_object_1:
  "objects (RegisterReinterpretSurface overlap_cache 0) (Suc 0) = overlap_entry_1"
  by (simp add: RegisterReinterpretSurface_def Let_def overlap_cache_def)

lemma overlap_cache_addr_1:
  "GetCacheAddr (objects (RegisterReinterpretSurface overlap_cache 0) (Suc 0)) = 0x1080"
  by (simp add: overlap_cache_object_1 GetCacheAddr_def overlap_entry_1_def)

lemma overlap_cache_size_1:
  "GetMemorySize (objects (RegisterReinterpretSurface overlap_cache 0) (Suc 0)) = 0x100"
  by (simp add: overlap_cache_object_1 GetMemorySize_def overlap_entry_1_def)

text \<open>
  C3 (as stated): for every entry registered in the tracker at cache address \<open>a\<close> with
  memory size \<open>s\<close>, an address collides with the entry exactly when it lies in the
  interval from \<open>a\<close> to \<open>a + s - 1\<close>. This fails where the interval overlaps the interval
  of an entry registered earlier: \<^verbatim>\<open>insert\<close> keeps the earlier value. With entry 0 at
  0x1000 registered first and entry 1 at 0x1080 after it (both of 0x100 bytes), the
  address 0x1081 lies in the interval of entry 1, and the lookup returns entry 0.
\<close>

theorem collision_overlap_counterexample:
  "reachable (RegisterReinterpretSurface overlap_cache 0) \<and>
   GetCacheAddr (objects (RegisterReinterpretSurface overlap_cache 0) 1) = 0x1080 \<and>
   GetMemorySize (objects (RegisterReinterpretSurface overlap_cache 0) 1) = 0x100 \<and>
   contains
     (GetReinterpretInterval (objects (RegisterReinterpretSurface overlap_cache 0) 1)) 0x1081 \<and>
   CollideOnReinterpretedSurface
     (RegisterReinterpretSurface (RegisterReinterpretSurface overlap_cache 0) 1) 0x1081 = Some 0 \<and>
   CollideOnReinterpretedSurface
     (RegisterReinterpretSurface (RegisterReinterpretSurface overlap_cache 0) 1) 0x1081 \<noteq> Some 1"
proof -
  let ?c1 = "RegisterReinterpretSurface overlap_cache 0"
  have geo: "GetCacheAddr (objects ?c1 1) = 0x1080" "GetMemorySize (objects ?c1 1) = 0x100"
    by (simp_all add: overlap_cache_addr_1 overlap_cache_size_1)
  have inside: "contains (GetReinterpretInterval (objects ?c1 1)) 0x1081"
    by (simp add: overlap_cache_object_1 overlap_interval_1)
  have old: "CollideOnReinterpretedSurface ?c1 0x1081 = Some 0"
    by (simp add: overlap_cache_lookup_0)
  have hit: "CollideOnReinterpretedSurface (RegisterReinterpretSurface ?c1 1) 0x1081 = Some 0"
    using old
    by (simp add: CollideOnReinterpretedSurface_def RegisterReinterpretSurface_def [of ?c1]
        icl_insert_def Let_def)
  show ?thesis
    using overlap_cache_registered_0 geo inside hit by simp
qed

text \<open>
  C3 (amended): an entry at cache address \<open>a\<close> with memory size \<open>s\<close> (not empty, and
  ending below the top of the address space) is registered with the right-open interval
  from \<open>a + 1\<close> to \<open>a + s - 1\<close>, that is the addresses \<open>x\<close> with \<open>a < x < a + s - 1\<close>: the
  entry's own start address is outside (and so is its last address \<open>a + s - 1\<close>), and
  the collision lookup at \<open>a\<close> does not return the entry. After the registration, an
  address collides with the entry exactly when it lies in that interval and no other
  entry held it before; an address that an earlier entry holds keeps colliding with that
  earlier entry.
\<close>

theorem reinterpret_interval:
  assumes "reachable c"
    and "GetMemorySize (objects c s) \<noteq> 0"
    and "unat (GetCacheAddr (objects c s)) + unat (GetMemorySize (objects c s)) < 2 ^ 64"
  shows "(contains (GetReinterpretInterval (objects c s)) x \<longleftrightarrow>
            unat (GetCacheAddr (objects c s)) < unat x \<and>
            unat x < unat (GetCacheAddr (objects c s)) + unat (GetMemorySize (objects c s)) - 1) \<and>
         \<not> contains (GetReinterpretInterval (objects c s)) (GetCacheAddr (objects c s)) \<and>
         CollideOnReinterpretedSurface (RegisterReinterpretSurface c s)
           (GetCacheAddr (objects c s)) \<noteq> Some s \<and>
         CollideOnReinterpretedSurface (RegisterReinterpretSurface c s) x =
           (case CollideOnReinterpretedSurface c x of
              Some t \<Rightarrow> Some t
            | None \<Rightarrow>
                if unat (GetCacheAddr (objects c s)) < unat x \<and>
                   unat x < unat (GetCacheAddr (objects c s)) + unat (GetMemorySize (objects c s)) - 1
                then Some s else None) \<and>
         (CollideOnReinterpretedSurface (RegisterReinterpretSurface c s) x = Some s \<longleftrightarrow>
            (unat (GetCacheAddr (objects c s)) < unat x \<and>
             unat x < unat (GetCacheAddr (objects c s)) + unat (GetMemorySize (objects c s)) - 1) \<and>
            (CollideOnReinterpretedSurface c x = None \<or>
             CollideOnReinterpretedSurface c x = Some s)) \<and>
         (CollideOnReinterpretedSurface c x = None \<longrightarrow>
            (CollideOnReinterpretedSurface (RegisterReinterpretSurface c s) x = Some s \<longleftrightarrow>
               unat (GetCacheAddr (objects c s)) < unat x \<and>
               unat x < unat (GetCacheAddr (objects c s)) + unat (GetMemorySize (objects c s)) - 1))"
proof -
  let ?a = "GetCacheAddr (objects c s)" and ?sz = "GetMemorySize (objects c s)"
  let ?I = "GetReinterpretInterval (objects c s)"
  have I: "?I = right_open (?a + 1) (?a + ?sz - 1)"
    by (simp add: GetReinterpretInterval_def)
  have mem: "contains ?I x \<longleftrightarrow> unat ?a < unat x \<and> unat x < unat ?a + unat ?sz - 1"
    unfolding I using assms(2,3) by (rule interval_unat)
  have start: "\<not> contains ?I ?a"
    unfolding I by (rule start_not_in_interval)
  have look: "CollideOnReinterpretedSurface (RegisterReinterpretSurface c s) y =
      (case CollideOnReinterpretedSurface c y of
         Some t \<Rightarrow> Some t
       | None \<Rightarrow> if contains ?I y then Some s else None)" for y
    by (simp add: CollideOnReinterpretedSurface_def RegisterReinterpretSurface_def icl_insert_def
        Let_def split: option.split)
  have wf: "tracker_wf c"
    using assms(1) by (rule reachable_tracker_wf)
  then have "CollideOnReinterpretedSurface c ?a \<noteq> Some s"
    using start by (auto simp add: tracker_wf_def CollideOnReinterpretedSurface_def)
  then have self: "CollideOnReinterpretedSurface (RegisterReinterpretSurface c s) ?a \<noteq> Some s"
    using start by (auto simp add: look split: option.split)
  have col: "CollideOnReinterpretedSurface (RegisterReinterpretSurface c s) x =
      (case CollideOnReinterpretedSurface c x of
         Some t \<Rightarrow> Some t
       | None \<Rightarrow> if unat ?a < unat x \<and> unat x < unat ?a + unat ?sz - 1 then Some s else None)"
    using look [of x] unfolding mem .
  have held: "contains ?I x" if "CollideOnReinterpretedSurface c x = Some s"
    using wf that by (simp add: tracker_wf_def CollideOnReinterpretedSurface_def)
  have "CollideOnReinterpretedSurface (RegisterReinterpretSurface c s) x = Some s \<longleftrightarrow>
      contains ?I x \<and>
      (CollideOnReinterpretedSurface c x = None \<or> CollideOnReinterpretedSurface c x = Some s)"
    using held by (auto simp add: look split: option.split)
  then have exact: "CollideOnReinterpretedSurface (RegisterReinterpretSurface c s) x = Some s \<longleftrightarrow>
      (unat ?a < unat x \<and> unat x < unat ?a + unat ?sz - 1) \<and>
      (CollideOnReinterpretedSurface c x = None \<or> CollideOnReinterpretedSurface c x = Some s)"
    unfolding mem .
  have free: "CollideOnReinterpretedSurface c x = None \<longrightarrow>
      (CollideOnReinterpretedSurface (RegisterReinterpretSurface c s) x = Some s \<longleftrightarrow>
         unat ?a < unat x \<and> unat x < unat ?a + unat ?sz - 1)"
    by (simp add: col)
  from mem start self col exact free show ?thesis
    by (intro conjI)
qed

theorem reinterpret_interval_witness:
  "reachable (RegisterReinterpretSurface overlap_cache 0) \<and>
   GetMemorySize (objects (RegisterReinterpretSurface overlap_cache 0) 1) \<noteq> 0 \<and>
   unat (GetCacheAddr (objects (RegisterReinterpretSurface overlap_cache 0) 1)) +
     unat (GetMemorySize (objects (RegisterReinterpretSurface overlap_cache 0) 1)) < 2 ^ 64 \<and>
   GetCacheAddr (objects (RegisterReinterpretSurface overlap_cache 0) 1) = 0x1080 \<and>
   GetMemorySize (objects (RegisterReinterpretSurface overlap_cache 0) 1) = 0x100 \<and>
   CollideOnReinterpretedSurface (RegisterReinterpretSurface overlap_cache 0) 0x1100 = None \<and>
   CollideOnReinterpretedSurface (RegisterReinterpretSurface overlap_cache 0) 0x1081 = Some 0 \<and>
   CollideOnReinterpretedSurface
     (RegisterReinterpretSurface (RegisterReinterpretSurface overlap_cache 0) 1) 0x1080 = Some 0 \<and>
   CollideOnReinterpretedSurface
     (RegisterReinterpretSurface (RegisterReinterpretSurface overlap_cache 0) 1) 0x1081 = Some 0 \<and>
   CollideOnReinterpretedSurface
     (RegisterReinterpretSurface (RegisterReinterpretSurface overlap_cache 0) 1) 0x10FF = Some 1 \<and>
   CollideOnReinterpretedSurface
     (RegisterReinterpretSurface (RegisterReinterpretSurface overlap_cache 0) 1) 0x1100 = Some 1 \<and>
   CollideOnReinterpretedSurface
     (RegisterReinterpretSurface (RegisterReinterpretSurface overlap_cache 0) 1) 0x117E = Some 1 \<and>
   CollideOnReinterpretedSurface
     (RegisterReinterpretSurface (RegisterReinterpretSurface overlap_cache 0) 1) 0x117F = None"
proof -
  let ?c1 = "RegisterReinterpretSurface overlap_cache 0"
  note r = overlap_cache_registered_0
  show ?thesis
    using reinterpret_interval [OF r, of 1 "0x1080"] reinterpret_interval [OF r, of 1 "0x1081"]
      reinterpret_interval [OF r, of 1 "0x10FF"] reinterpret_interval [OF r, of 1 "0x1100"]
      reinterpret_interval [OF r, of 1 "0x117E"] reinterpret_interval [OF r, of 1 "0x117F"] r
    by (simp add: overlap_cache_addr_1 overlap_cache_size_1 overlap_cache_lookup_0)
qed

section \<open>Tracker intervals and the reinterpreted flag\<close>

text \<open>
  C4 (as stated): in every reachable state the tracker holds an interval of an entry if
  and only if the entry's reinterpreted flag is set. This fails from right to left:
  Unregister erases the interval and leaves the flag set, so an entry that is registered
  again afterwards is live and flagged with no interval in the tracker.
\<close>

theorem flag_without_interval_counterexample:
  "reachable (run example_cache [OpRegisterReinterpretSurface 0, OpUnregister 0, OpRegister 0]) \<and>
   0 \<in> registered
     (run example_cache [OpRegisterReinterpretSurface 0, OpUnregister 0, OpRegister 0]) \<and>
   IsReinterpreted
     (objects (run example_cache [OpRegisterReinterpretSurface 0, OpUnregister 0, OpRegister 0]) 0) \<and>
   \<not> tracked (run example_cache [OpRegisterReinterpretSurface 0, OpUnregister 0, OpRegister 0]) 0"
proof -
  let ?c1 = "apply_op example_cache (OpRegisterReinterpretSurface 0)"
  let ?c2 = "apply_op ?c1 (OpUnregister 0)"
  let ?c3 = "apply_op ?c2 (OpRegister 0)"
  have r1: "reachable ?c1"
    by (rule reachable.step) (rule reachable.start, rule example_cache_initial)
  then have "reachable ?c2"
    by (rule reachable.step)
  then have r3: "reachable ?c3"
    by (rule reachable.step)
  have live: "0 \<in> registered ?c3"
    by (simp add: Register_def RasterizerCache_Register_def)
  have flag: "IsReinterpreted (objects ?c3 0)"
    by (simp add: RegisterReinterpretSurface_def Unregister_def RasterizerCache_Unregister_def
        Register_def RasterizerCache_Register_def MarkReinterpreted_def IsReinterpreted_def Let_def)
  have "\<not> tracked ?c2 0"
    using Unregister_not_tracked [OF reachable_tracker_wf [OF r1], of 0] by simp
  then have "\<not> tracked ?c3 0"
    by (simp add: tracked_def Register_def RasterizerCache_Register_def)
  then show ?thesis
    using r3 live flag by simp
qed

text \<open>
  C4 (amended): in every reachable state, an entry that has an interval in the tracker
  has its reinterpreted flag set (the flag may stay set with no interval left);
  RegisterReinterpretSurface sets the flag when it inserts the interval, and Unregister
  leaves no interval of the entry in the tracker and removes the entry from the
  address-indexed store.
\<close>

theorem tracker_interval_implies_flag:
  assumes "reachable c"
  shows "(tracked c s \<longrightarrow> IsReinterpreted (objects c s)) \<and>
         IsReinterpreted (objects (RegisterReinterpretSurface c s) s) \<and>
         \<not> tracked (Unregister c s) s \<and>
         s \<notin> registered (Unregister c s)"
proof -
  have wf: "tracker_wf c"
    using assms by (rule reachable_tracker_wf)
  have "tracked c s \<longrightarrow> IsReinterpreted (objects c s)"
    using wf by (auto simp add: tracked_def tracker_wf_def IsReinterpreted_def)
  moreover have "IsReinterpreted (objects (RegisterReinterpretSurface c s) s)"
    by (simp add: RegisterReinterpretSurface_def MarkReinterpreted_def IsReinterpreted_def Let_def)
  moreover have "\<not> tracked (Unregister c s) s"
    using wf by (rule Unregister_not_tracked)
  moreover have "s \<notin> registered (Unregister c s)"
    by (simp add: Unregister_def RasterizerCache_Unregister_def Let_def)
  ultimately show ?thesis
    by blast
qed

theorem tracker_interval_implies_flag_witness:
  "reachable (run example_cache [OpRegisterReinterpretSurface 0]) \<and>
   tracked (run example_cache [OpRegisterReinterpretSurface 0]) 0 \<and>
   IsReinterpreted (objects (run example_cache [OpRegisterReinterpretSurface 0]) 0) \<and>
   CollideOnReinterpretedSurface (run example_cache [OpRegisterReinterpretSurface 0]) 0x2000 = Some 0 \<and>
   \<not> tracked (Unregister (run example_cache [OpRegisterReinterpretSurface 0]) 0) 0"
proof -
  let ?c1 = "apply_op example_cache (OpRegisterReinterpretSurface 0)"
  have r1: "reachable ?c1"
    by (rule reachable.step) (rule reachable.start, rule example_cache_initial)
  have hit: "reinterpreted_surfaces ?c1 0x2000 = Some 0"
    by (simp add: RegisterReinterpretSurface_def icl_insert_def Let_def example_cache_def
        example_interval)
  then have "tracked ?c1 0"
    unfolding tracked_def by (rule exI)
  then show ?thesis
    using tracker_interval_implies_flag [OF r1, of 0] r1 hit
    by (simp add: CollideOnReinterpretedSurface_def)
qed

section \<open>Register, then Unregister\<close>

text \<open>
  C5: from any reachable state, RegisterReinterpretSurface followed at once by Unregister
  of the same entry leaves no address of the tracker mapped to the entry, no collision
  inside the entry's interval, and the address-indexed store without the entry. For a
  flagged entry, Unregister is the erasure of the entry's interval from the tracker
  followed by the removal from the store.
\<close>

theorem Register_then_Unregister:
  assumes "reachable c"
  shows "\<not> tracked (Unregister (RegisterReinterpretSurface c s) s) s \<and>
         s \<notin> registered (Unregister (RegisterReinterpretSurface c s) s) \<and>
         (\<forall>x. contains (GetReinterpretInterval (objects c s)) x \<longrightarrow>
            CollideOnReinterpretedSurface (Unregister (RegisterReinterpretSurface c s) s) x = None) \<and>
         (IsReinterpreted (objects c s) \<longrightarrow>
            Unregister c s =
              RasterizerCache_Unregister
                (c\<lparr>reinterpreted_surfaces :=
                     icl_erase (GetReinterpretInterval (objects c s)) (reinterpreted_surfaces c)\<rparr>) s)"
proof -
  let ?c1 = "RegisterReinterpretSurface c s"
  have "reachable (apply_op c (OpRegisterReinterpretSurface s))"
    using assms by (rule reachable.step)
  then have wf: "tracker_wf ?c1"
    using reachable_tracker_wf by simp
  have nt: "\<not> tracked (Unregister ?c1 s) s"
    using wf by (rule Unregister_not_tracked)
  have nr: "s \<notin> registered (Unregister ?c1 s)"
    by (simp add: Unregister_def RasterizerCache_Unregister_def Let_def)
  have I: "GetReinterpretInterval (objects ?c1 s) = GetReinterpretInterval (objects c s)"
    using interval_apply_op [of c "OpRegisterReinterpretSurface s" s] by simp
  have flag: "IsReinterpreted (objects ?c1 s)"
    by (simp add: RegisterReinterpretSurface_def MarkReinterpreted_def IsReinterpreted_def Let_def)
  have er: "CollideOnReinterpretedSurface (Unregister ?c1 s) x = None"
    if "contains (GetReinterpretInterval (objects c s)) x" for x
    using that flag
    by (simp add: CollideOnReinterpretedSurface_def Unregister_def RasterizerCache_Unregister_def
        icl_erase_def I Let_def)
  have ord: "Unregister c s =
      RasterizerCache_Unregister
        (c\<lparr>reinterpreted_surfaces :=
             icl_erase (GetReinterpretInterval (objects c s)) (reinterpreted_surfaces c)\<rparr>) s"
    if "IsReinterpreted (objects c s)"
    using that by (simp add: Unregister_def Let_def)
  show ?thesis
    using nt nr er ord by blast
qed

theorem Register_then_Unregister_witness:
  "reachable example_cache \<and>
   contains (GetReinterpretInterval (objects example_cache 0)) 0x2000 \<and>
   CollideOnReinterpretedSurface (RegisterReinterpretSurface example_cache 0) 0x2000 = Some 0 \<and>
   CollideOnReinterpretedSurface
     (Unregister (RegisterReinterpretSurface example_cache 0) 0) 0x2000 = None \<and>
   \<not> tracked (Unregister (RegisterReinterpretSurface example_cache 0) 0) 0 \<and>
   0 \<notin> registered (Unregister (RegisterReinterpretSurface example_cache 0) 0) \<and>
   reachable (RegisterReinterpretSurface example_cache 0) \<and>
   IsReinterpreted (objects (RegisterReinterpretSurface example_cache 0) 0) \<and>
   Unregister (RegisterReinterpretSurface example_cache 0) 0 =
     RasterizerCache_Unregister
       ((RegisterReinterpretSurface example_cache 0)
          \<lparr>reinterpreted_surfaces :=
             icl_erase (GetReinterpretInterval (objects (RegisterReinterpretSurface example_cache 0) 0))
               (reinterpreted_surfaces (RegisterReinterpretSurface example_cache 0))\<rparr>) 0"
proof -
  let ?c1 = "RegisterReinterpretSurface example_cache 0"
  have r: "reachable example_cache"
    by (rule reachable.start) (rule example_cache_initial)
  then have "reachable (apply_op example_cache (OpRegisterReinterpretSurface 0))"
    by (rule reachable.step)
  then have r1: "reachable ?c1"
    by simp
  have in_I: "contains (GetReinterpretInterval (objects example_cache 0)) 0x2000"
    by (simp add: example_cache_def example_interval)
  have hit: "CollideOnReinterpretedSurface ?c1 0x2000 = Some 0"
    by (simp add: CollideOnReinterpretedSurface_def RegisterReinterpretSurface_def icl_insert_def
        Let_def example_cache_def example_interval)
  have flag: "IsReinterpreted (objects ?c1 0)"
    by (simp add: RegisterReinterpretSurface_def MarkReinterpreted_def IsReinterpreted_def Let_def)
  show ?thesis
    using Register_then_Unregister [OF r, of 0] Register_then_Unregister [OF r1, of 0]
      r r1 in_I hit flag
    by blast
qed

section \<open>The reinterpreted flag is never cleared\<close>

text \<open>
  C10: once the reinterpreted flag of an entry is set, it is set after every run of
  operations of the entry and of the cache (Register, Unregister,
  RegisterReinterpretSurface, MarkReinterpreted, MarkForReload), on this entry or on
  others; in particular after Unregister, when the entry has left the address-indexed
  store.
\<close>

theorem reinterpreted_never_cleared:
  assumes "IsReinterpreted (objects c s)"
  shows "IsReinterpreted (objects (run c ops) s) \<and>
         IsReinterpreted (objects (Unregister c s) s) \<and>
         s \<notin> registered (Unregister c s)"
proof -
  have f: "reinterpreted (objects c s)"
    using assms by (simp add: IsReinterpreted_def)
  then have "reinterpreted (objects (run c ops) s)"
    by (rule reinterpreted_run)
  moreover have "reinterpreted (objects (apply_op c (OpUnregister s)) s)"
    using f by (rule reinterpreted_apply_op)
  moreover have "s \<notin> registered (Unregister c s)"
    by (simp add: Unregister_def RasterizerCache_Unregister_def Let_def)
  ultimately show ?thesis
    by (simp add: IsReinterpreted_def)
qed

theorem reinterpreted_never_cleared_witness:
  "IsReinterpreted (objects (apply_op example_cache (OpMarkReinterpreted 0)) 0) \<and>
   IsReinterpreted
     (objects
        (run (apply_op example_cache (OpMarkReinterpreted 0))
           [OpRegister 0, OpMarkForReload 0 True, OpUnregister 0, OpMarkForReload 0 False]) 0) \<and>
   0 \<notin> registered (Unregister (apply_op example_cache (OpMarkReinterpreted 0)) 0)"
proof -
  have f: "IsReinterpreted (objects (apply_op example_cache (OpMarkReinterpreted 0)) 0)"
    by (simp add: IsReinterpreted_def MarkReinterpreted_def)
  show ?thesis
    using reinterpreted_never_cleared [OF f] f by blast
qed

end
